theory Spec2Isabelle
  imports Complex_Main "HOL-Library.Sublist"
begin

section \<open>Text: Python strings over the code points 0..255\<close>

text \<open>
  The classifier of \<^verbatim>\<open>step_neg_check/agents/negative_event_detector.py\<close> works on
  Python \<^verbatim>\<open>str\<close> values. They are modelled as \<^typ>\<open>string\<close>, one \<^typ>\<open>char\<close> per code
  point, which covers the code points 0..255 (ASCII and Latin-1). Every keyword and every
  pattern of the program is ASCII.

  \<open>lower_char\<close> is \<^verbatim>\<open>str.lower\<close> on one code point of that range: A..Z and the Latin-1
  capitals 0xC0..0xDE (without the multiplication sign 0xD7) move up by 32, every other
  code point is kept. \<open>is_word_char\<close> is the class \<^verbatim>\<open>\w\<close> of a \<^verbatim>\<open>str\<close> pattern
  (\<^verbatim>\<open>isalnum\<close> or underscore) and \<open>is_space_char\<close> the class \<^verbatim>\<open>\s\<close> (\<^verbatim>\<open>isspace\<close>).
\<close>

definition lower_char :: "char \<Rightarrow> char" where
  "lower_char c = (let n = (of_char c :: nat) in
     if (65 \<le> n \<and> n \<le> 90) \<or> (192 \<le> n \<and> n \<le> 222 \<and> n \<noteq> 215)
     then char_of (n + 32) else c)"

definition lower :: "string \<Rightarrow> string" where
  "lower s = map lower_char s"

definition is_word_char :: "char \<Rightarrow> bool" where
  "is_word_char c = (let n = (of_char c :: nat) in
     (48 \<le> n \<and> n \<le> 57) \<or> (65 \<le> n \<and> n \<le> 90) \<or> n = 95 \<or> (97 \<le> n \<and> n \<le> 122)
     \<or> n = 170 \<or> n = 178 \<or> n = 179 \<or> n = 181 \<or> n = 185 \<or> n = 186
     \<or> (188 \<le> n \<and> n \<le> 190) \<or> (192 \<le> n \<and> n \<le> 214) \<or> (216 \<le> n \<and> n \<le> 246)
     \<or> (248 \<le> n \<and> n \<le> 255))"

definition is_space_char :: "char \<Rightarrow> bool" where
  "is_space_char c = (let n = (of_char c :: nat) in
     (9 \<le> n \<and> n \<le> 13) \<or> (28 \<le> n \<and> n \<le> 32) \<or> n = 133 \<or> n = 160)"

text \<open>\<open>py_in k t\<close> is the Python test \<^verbatim>\<open>k in t\<close> on two strings.\<close>

fun starts_with :: "string \<Rightarrow> string \<Rightarrow> bool" where
  "starts_with [] t = True"
| "starts_with (k # ks) [] = False"
| "starts_with (k # ks) (c # cs) = (if k = c then starts_with ks cs else False)"

fun py_in :: "string \<Rightarrow> string \<Rightarrow> bool" where
  "py_in k [] = starts_with k []"
| "py_in k (c # cs) = (if starts_with k (c # cs) then True else py_in k cs)"


section \<open>The regular expressions of the program\<close>

text \<open>
  The patterns use literals, alternations of literals, concatenation, an optional group,
  \<^verbatim>\<open>\b\<close>, \<^verbatim>\<open>\s+\<close> and one negative lookahead. A cursor is the character before the
  current position (if any) and the text from the position on. \<open>rmatch r cur\<close> lists
  the cursors at which a match of \<open>r\<close> starting at \<open>cur\<close> can end, in the order in which
  the backtracking matcher of \<^verbatim>\<open>re\<close> tries them: the head is the match it reports.
  Every pattern is compiled with \<^verbatim>\<open>re.IGNORECASE\<close>, so a literal character matches a
  text character when both have the same lower-case form. That is the whole of the
  matching on the code points 0..255; on larger code points \<^verbatim>\<open>re.IGNORECASE\<close> has
  further equivalences (U+0131 with "i", U+017F with "s") that lie outside the type.
\<close>

datatype regex =
    Lit string
  | Alts "string list"
  | Seq regex regex
  | Opt regex
  | WordB
  | Spaces
  | NegLook regex

type_synonym cursor = "char option \<times> string"

fun lit_match :: "string \<Rightarrow> cursor \<Rightarrow> cursor list" where
  "lit_match [] cur = [cur]"
| "lit_match (k # ks) (p, []) = []"
| "lit_match (k # ks) (p, c # cs) =
     (if lower_char c = lower_char k then lit_match ks (Some c, cs) else [])"

fun spaces_match :: "cursor \<Rightarrow> cursor list" where
  "spaces_match (p, []) = []"
| "spaces_match (p, c # cs) =
     (if is_space_char c then spaces_match (Some c, cs) @ [(Some c, cs)] else [])"

definition before_is_word :: "cursor \<Rightarrow> bool" where
  "before_is_word cur = (case fst cur of None \<Rightarrow> False | Some c \<Rightarrow> is_word_char c)"

definition after_is_word :: "cursor \<Rightarrow> bool" where
  "after_is_word cur = (case snd cur of [] \<Rightarrow> False | c # cs \<Rightarrow> is_word_char c)"

primrec rmatch :: "regex \<Rightarrow> cursor \<Rightarrow> cursor list" where
  "rmatch (Lit s) cur = lit_match s cur"
| "rmatch (Alts ws) cur = concat (map (\<lambda>w. lit_match w cur) ws)"
| "rmatch (Seq a b) cur = concat (map (rmatch b) (rmatch a cur))"
| "rmatch (Opt a) cur = rmatch a cur @ [cur]"
| "rmatch WordB cur = (if before_is_word cur \<noteq> after_is_word cur then [cur] else [])"
| "rmatch Spaces cur = spaces_match cur"
| "rmatch (NegLook a) cur = (if rmatch a cur = [] then [cur] else [])"

text \<open>\<^verbatim>\<open>re.search\<close>: is there a position of the text at which the pattern matches.\<close>

fun search_from :: "regex \<Rightarrow> cursor \<Rightarrow> bool" where
  "search_from r (p, []) = (rmatch r (p, []) \<noteq> [])"
| "search_from r (p, c # cs) =
     (if rmatch r (p, c # cs) \<noteq> [] then True else search_from r (Some c, cs))"

definition re_search :: "regex \<Rightarrow> string \<Rightarrow> bool" where
  "re_search r text = search_from r (None, text)"

text \<open>
  \<^verbatim>\<open>re.findall\<close>: the matches found from left to right, each search starting where the
  previous match ended. The model returns the matched texts (the program only takes the
  length of the list). After a match of the empty string the scan moves on by one
  character; no pattern of the program matches the empty string.
\<close>

function findall_from :: "regex \<Rightarrow> cursor \<Rightarrow> string list" where
  "findall_from r (p, t) =
     (case rmatch r (p, t) of
        [] \<Rightarrow> (case t of [] \<Rightarrow> [] | c # cs \<Rightarrow> findall_from r (Some c, cs))
      | (p', t') # others \<Rightarrow>
          (if length t' < length t
           then take (length t - length t') t # findall_from r (p', t')
           else [] # (case t of [] \<Rightarrow> [] | c # cs \<Rightarrow> findall_from r (Some c, cs))))"
  by pat_completeness auto
termination
  by (relation "measure (\<lambda>(r, cur). length (snd cur))") auto

definition re_findall :: "regex \<Rightarrow> string \<Rightarrow> string list" where
  "re_findall r text = findall_from r (None, text)"


section \<open>The static configuration\<close>

text \<open>
  \<^verbatim>\<open>TARGET_COUNTRIES\<close> is a Python set; it is listed in the order of the source, and the
  result of the one loop over it does not depend on the order.
\<close>

definition TARGET_COUNTRIES :: "string list" where
  "TARGET_COUNTRIES =
    [''indonesia'', ''china'', ''vietnam'', ''cambodia'', ''laos'',
     ''indonesian'', ''chinese'', ''vietnamese'', ''cambodian'', ''laotian'',
     ''jakarta'', ''beijing'', ''hanoi'', ''phnom penh'', ''vientiane'']"

record criterion_config =
  keyword_list :: "string list"
  weight :: rat

text \<open>
  The weights are Python floats. Each is a multiple of 0.5 and the 14 of them add up to
  38, so every sum the program forms is exact in binary floating point and \<^typ>\<open>rat\<close>
  gives the same values and comparisons. The dict \<^verbatim>\<open>CRITERIA_KEYWORDS\<close> is written as
  one named configuration per category and the table of the 14 of them, in the order of the
  source (a Python dict keeps the order of insertion).
\<close>

definition production_disruption :: criterion_config where
  "production_disruption = \<lparr>keyword_list =
    [''factory shutdown'', ''factory shutdowns'', ''plant closure'', ''production halt'',
    ''manufacturing disruption'', ''supply chain disruption'',
    ''port closure'', ''port shutdown'', ''port closed'',
    ''shipping disruption'', ''shipping halted'',
    ''logistics disruption'', ''airport closure'', ''energy crisis'',
    ''power outage'', ''blackout'', ''labor strike'', ''worker strike'',
    ''mass strike'', ''industrial action'', ''work stoppage'',
    ''factory fire'', ''explosion at'', ''production suspended'',
    ''operations halted'', ''supply shortage'', ''supply cut'',
    ''disruption confirmed'', ''shutdown confirmed'',
    ''strike began'', ''workers'' @ [CHR 0x27] @ '' strike'', ''announced shutdowns''],
    weight = 3\<rparr>"

definition corporate_distress :: criterion_config where
  "corporate_distress = \<lparr>keyword_list =
    [''bankruptcy'', ''bankrupt'', ''default'', ''defaults on'',
    ''insolvency'', ''insolvent'', ''debt restructuring'',
    ''credit downgrade'', ''rating downgrade'', ''downgraded to'',
    ''liquidity crisis'', ''cash crisis'', ''unable to pay'',
    ''filed for bankruptcy'', ''chapter 11'', ''creditors meeting'',
    ''debt default confirmed'', ''restructuring confirmed''],
    weight = 3\<rparr>"

definition sovereign_stress :: criterion_config where
  "sovereign_stress = \<lparr>keyword_list =
    [''sovereign default'', ''sovereign downgrade'',
    ''country downgrade'', ''national default'',
    ''imf bailout'', ''imf program'', ''imf loan'',
    ''emergency bailout'', ''capital controls'', ''capital flight'',
    ''bank run'', ''banking crisis'', ''bank collapse'',
    ''interbank freeze'', ''financial system collapse'',
    ''currency crisis'', ''currency devaluation'',
    ''foreign reserves depleted'', ''sovereign debt crisis''],
    weight = 7 / 2\<rparr>"

definition trade_restrictions :: criterion_config where
  "trade_restrictions = \<lparr>keyword_list =
    [''tariff imposed'', ''tariff increase'', ''new tariffs'',
    ''export ban'', ''import ban'', ''trade ban'',
    ''sanctions imposed'', ''sanctions announced'',
    ''trade barriers'', ''market access denied'',
    ''trade restrictions'', ''embargo'', ''export restrictions'',
    ''import restrictions'', ''trade war'', ''retaliatory tariffs''],
    weight = 3\<rparr>"

definition regulatory_political_shock :: criterion_config where
  "regulatory_political_shock = \<lparr>keyword_list =
    [''nationalization'', ''nationalised'', ''nationalized'',
    ''asset seizure'', ''assets seized'', ''expropriation'',
    ''industry ban'', ''sector ban'', ''regulatory crackdown'',
    ''government crackdown'', ''forced shutdown'',
    ''political crisis'', ''government collapse'',
    ''leadership removed'', ''president removed'', ''prime minister removed'',
    ''coup'', ''military takeover'', ''state of emergency declared'',
    ''institution dissolved'', ''parliament dissolved''],
    weight = 7 / 2\<rparr>"

definition capital_withdrawal :: criterion_config where
  "capital_withdrawal = \<lparr>keyword_list =
    [''business closure'', ''company exit'', ''market exit'',
    ''withdrawal from market'', ''pulling out'', ''exiting country'',
    ''capital flight'', ''foreign investment withdrawn'',
    ''operations relocated'', ''factory relocated'',
    ''mass layoffs'', ''workforce reduction'',
    ''hiring freeze'', ''investment cancelled'',
    ''project cancelled'', ''expansion cancelled'',
    ''shutdown announced'', ''closure confirmed''],
    weight = 5 / 2\<rparr>"

definition demand_contraction :: criterion_config where
  "demand_contraction = \<lparr>keyword_list =
    [''demand collapse'', ''demand fell'', ''demand dropped'',
    ''consumer spending fell'', ''consumer spending declined'',
    ''exports declined'', ''exports fell'', ''exports dropped'',
    ''industrial demand fell'', ''b2b transactions declined'',
    ''sales plummeted'', ''orders cancelled'', ''order backlog'',
    ''sustained decline'', ''continued contraction'',
    ''recession'', ''economic contraction'', ''quarter of contraction''],
    weight = 5 / 2\<rparr>"

definition natural_disaster :: criterion_config where
  "natural_disaster = \<lparr>keyword_list =
    [''earthquake'', ''typhoon'', ''hurricane'', ''cyclone'',
    ''flood'', ''flooding'', ''major fire'', ''wildfire'',
    ''epidemic'', ''pandemic'', ''disease outbreak'',
    ''drought'', ''landslide'', ''tsunami'', ''volcanic eruption'',
    ''death toll'', ''casualties reported'', ''evacuation ordered'',
    ''disaster zone'', ''state of emergency'', ''emergency declared''],
    weight = 5 / 2\<rparr>"

definition infrastructure_failure :: criterion_config where
  "infrastructure_failure = \<lparr>keyword_list =
    [''power grid failure'', ''grid collapse'', ''blackout'',
    ''port shutdown'', ''port closed'', ''port disruption'',
    ''telecommunications outage'', ''network failure'',
    ''payment system down'', ''banking system down'',
    ''cyberattack'', ''cyber attack'', ''ransomware'',
    ''transport system failure'', ''rail disruption'',
    ''air traffic halted'', ''infrastructure failure''],
    weight = 3\<rparr>"

definition corporate_outlook_cuts :: criterion_config where
  "corporate_outlook_cuts = \<lparr>keyword_list =
    [''negative outlook'', ''outlook cut'', ''profit warning'',
    ''earnings warning'', ''guidance cut'', ''lowered forecast'',
    ''capex cut'', ''capital expenditure cut'', ''investment cut'',
    ''project cancelled'', ''expansion cancelled'',
    ''hiring freeze'', ''job cuts'', ''layoffs announced'',
    ''restructuring announced'', ''cost cutting''],
    weight = 2\<rparr>"

definition fiscal_tightening :: criterion_config where
  "fiscal_tightening = \<lparr>keyword_list =
    [''stimulus ended'', ''stimulus withdrawn'', ''support ended'',
    ''subsidy cut'', ''subsidy removed'', ''subsidy expired'',
    ''new tax'', ''tax increase'', ''tax hike'',
    ''austerity measures'', ''spending cuts'', ''budget cuts'',
    ''fiscal tightening'', ''government spending cut''],
    weight = 5 / 2\<rparr>"

definition market_instability :: criterion_config where
  "market_instability = \<lparr>keyword_list =
    [''market crash'', ''stock market plunge'', ''stocks tumble'',
    ''index fell'', ''market volatility'', ''sharp decline'',
    ''currency plunge'', ''currency crash'', ''exchange rate fall'',
    ''commodity crash'', ''oil price crash'', ''price collapse'',
    ''trading halted'', ''circuit breaker'', ''sell-off''],
    weight = 2\<rparr>"

definition geopolitical_escalation :: criterion_config where
  "geopolitical_escalation = \<lparr>keyword_list =
    [''military conflict'', ''armed conflict'', ''border clash'',
    ''military confrontation'', ''maritime blockade'',
    ''naval blockade'', ''civil unrest'', ''riots'', ''protests turn violent'',
    ''state of emergency declared'', ''mobilization'',
    ''troops deployed'', ''military action'', ''escalation confirmed''],
    weight = 7 / 2\<rparr>"

definition structural_escalation :: criterion_config where
  "structural_escalation = \<lparr>keyword_list =
    [''first time'', ''unprecedented'', ''never before'',
    ''record high'', ''record low'', ''worst since'',
    ''sharpest decline'', ''largest drop'', ''historic'',
    ''all-time'', ''exceptional'', ''extraordinary measures''],
    weight = 3 / 2\<rparr>"

definition CRITERIA_KEYWORDS :: "(string \<times> criterion_config) list" where
  "CRITERIA_KEYWORDS =
    [(''production_disruption'', production_disruption),
     (''corporate_distress'', corporate_distress),
     (''sovereign_stress'', sovereign_stress),
     (''trade_restrictions'', trade_restrictions),
     (''regulatory_political_shock'', regulatory_political_shock),
     (''capital_withdrawal'', capital_withdrawal),
     (''demand_contraction'', demand_contraction),
     (''natural_disaster'', natural_disaster),
     (''infrastructure_failure'', infrastructure_failure),
     (''corporate_outlook_cuts'', corporate_outlook_cuts),
     (''fiscal_tightening'', fiscal_tightening),
     (''market_instability'', market_instability),
     (''geopolitical_escalation'', geopolitical_escalation),
     (''structural_escalation'', structural_escalation)]"

text \<open>\<open>word_pattern ws\<close> is the pattern \<^verbatim>\<open>\b(w1|w2|...)\b\<close>.\<close>

definition word_pattern :: "string list \<Rightarrow> regex" where
  "word_pattern ws = Seq WordB (Seq (Alts ws) WordB)"

definition WARNING_WORDS :: "string list" where
  "WARNING_WORDS = [''warns'', ''warning'', ''caution'', ''advisory'', ''alert'']"

definition WARNING_LOOKAHEAD :: regex where
  "WARNING_LOOKAHEAD =
     Seq Spaces (Seq (Opt (Seq (Lit ''of'') Spaces))
                     (Alts [''confirmed'', ''announced'', ''declared'']))"

definition WARNING_PATTERN :: regex where
  "WARNING_PATTERN = Seq (word_pattern WARNING_WORDS) (NegLook WARNING_LOOKAHEAD)"

definition EXCLUSION_PATTERNS :: "regex list" where
  "EXCLUSION_PATTERNS =
    [word_pattern [''may'', ''might'', ''could'', ''would'', ''should'', ''potentially'',
       ''possibly'', ''expected'', ''forecast'', ''projected'', ''predicted'',
       ''anticipated'', ''likely'', ''rumored'', ''speculated''],
     word_pattern [''proposal'', ''proposed'', ''draft'', ''plan to'', ''considering'',
       ''discussing'', ''negotiating'', ''talks about''],
     word_pattern [''if'', ''whether'', ''whether or not'', ''in case'', ''hypothetical'',
       ''scenario''],
     word_pattern [''risk of'', ''threat of'', ''concern about'', ''fear of'',
       ''worry about''],
     WARNING_PATTERN]"

definition CONFIRMATION_PATTERNS :: "regex list" where
  "CONFIRMATION_PATTERNS =
    [word_pattern [''confirmed'', ''announced'', ''declared'', ''official'', ''finalized'',
       ''completed'', ''executed'', ''implemented''],
     word_pattern [''has occurred'', ''occurred on'', ''took place'', ''happened''],
     word_pattern [''reported that'', ''stated that'', ''announced that'']]"

definition past_tense_indicators :: "regex list" where
  "past_tense_indicators =
    [word_pattern [''shut down'', ''closed'', ''collapsed'', ''defaulted'', ''filed'',
       ''declared'', ''announced'', ''implemented'', ''imposed'', ''occurred'', ''happened''],
     word_pattern [''has shut'', ''has closed'', ''has collapsed'', ''has defaulted'',
       ''has filed''],
     Seq WordB (Seq (Alts [''has been'', ''were'']) (Seq Spaces
       (Seq (Alts [''shut'', ''closed'', ''destroyed'', ''damaged'', ''cancelled'',
          ''halted'', ''stopped'']) WordB))),
     Seq WordB (Seq (Alts [''operations'']) (Seq Spaces
       (Seq (Alts [''halted'', ''stopped'', ''suspended'']) WordB)))]"

definition disaster_indicators :: "string list" where
  "disaster_indicators =
    [''earthquake struck'', ''typhoon hit'', ''flood hit'', ''fire destroyed'',
     ''killed'', ''died'', ''injured'', ''evacuated'', ''destroyed'']"


section \<open>The detector\<close>

record EventContext =
  title :: string
  content :: string
  country :: "string option"
  is_confirmed :: bool
  has_material_impact :: bool

text \<open>
  The loops \<^verbatim>\<open>for k in ks: if k in text: ... break\<close> and
  \<^verbatim>\<open>for p in ps: if re.search(p, text, re.IGNORECASE): ... break\<close> stop at the first hit.
\<close>

primrec any_keyword_in :: "string list \<Rightarrow> string \<Rightarrow> bool" where
  "any_keyword_in [] text = False"
| "any_keyword_in (k # ks) text = (if py_in k text then True else any_keyword_in ks text)"

primrec any_pattern_found :: "regex list \<Rightarrow> string \<Rightarrow> bool" where
  "any_pattern_found [] text = False"
| "any_pattern_found (p # ps) text = (if re_search p text then True else any_pattern_found ps text)"

definition check_geographic_requirement :: "string \<Rightarrow> bool" where
  "check_geographic_requirement text =
     (let text_lower = lower text in any_keyword_in TARGET_COUNTRIES text_lower)"

definition check_confirmed_outcome :: "string \<Rightarrow> bool" where
  "check_confirmed_outcome text =
     (let has_confirmation = False;
          has_confirmation =
            (if any_pattern_found CONFIRMATION_PATTERNS text then True else has_confirmation);
          has_confirmation =
            (if any_pattern_found past_tense_indicators text then True else has_confirmation);
          has_confirmation =
            (if any_keyword_in disaster_indicators (lower text) then True else has_confirmation)
      in has_confirmation)"

definition exclusion_count :: "string \<Rightarrow> nat" where
  "exclusion_count text =
     foldl (\<lambda>n pattern. n + length (re_findall pattern text)) 0 EXCLUSION_PATTERNS"

definition check_exclusion_patterns :: "string \<Rightarrow> bool" where
  "check_exclusion_patterns text = (exclusion_count text \<ge> 3)"

definition evaluate_criteria :: "string \<Rightarrow> rat" where
  "evaluate_criteria text =
     (let text_lower = lower text in
      foldl (\<lambda>total_score (criterion, config).
               if any_keyword_in (keyword_list config) text_lower
               then total_score + weight config else total_score)
            0 CRITERIA_KEYWORDS)"

text \<open>
  \<open>normalize t c\<close> is the text \<^verbatim>\<open>f"{title} {content}".lower()\<close> that \<^verbatim>\<open>detect\<close> and
  \<^verbatim>\<open>get_detailed_analysis\<close> hand to every stage. \<open>detect_run\<close> follows \<^verbatim>\<open>detect\<close>
  statement by statement and returns, next to the verdict, the stages whose method was
  called before the \<^verbatim>\<open>return\<close>.
\<close>

datatype stage = Geographic | Confirmation | Exclusion | Criteria

definition normalize :: "string \<Rightarrow> string \<Rightarrow> string" where
  "normalize t c = lower (t @ '' '' @ c)"

definition detect_run :: "'a EventContext_scheme \<Rightarrow> stage list \<times> string" where
  "detect_run event =
     (let text = normalize (title event) (content event) in
      if \<not> check_geographic_requirement text then ([Geographic], ''no'')
      else if \<not> check_confirmed_outcome text then ([Geographic, Confirmation], ''no'')
      else if check_exclusion_patterns text then ([Geographic, Confirmation, Exclusion], ''no'')
      else let criteria_score = evaluate_criteria text in
           if criteria_score \<ge> 2
           then ([Geographic, Confirmation, Exclusion, Criteria], ''yes'')
           else ([Geographic, Confirmation, Exclusion, Criteria], ''no''))"

definition detect :: "'a EventContext_scheme \<Rightarrow> string" where
  "detect event = snd (detect_run event)"

definition detect_from_text :: "string \<Rightarrow> string \<Rightarrow> string" where
  "detect_from_text t c =
     detect \<lparr>title = t, content = c, country = None, is_confirmed = False,
             has_material_impact = False\<rparr>"

record criteria_match =
  criterion :: string
  matched_keywords :: "string list"
  match_weight :: rat

record analysis =
  result :: string
  geographic_match :: bool
  confirmed_outcome :: bool
  excluded :: bool
  criteria_matches :: "criteria_match list"
  total_score :: rat

text \<open>
  The loop of \<^verbatim>\<open>get_detailed_analysis\<close> over the categories, with its two accumulators
  \<^verbatim>\<open>matched_criteria\<close> and \<^verbatim>\<open>total_score\<close>. The key \<^verbatim>\<open>"weight"\<close> of a match
  is the field \<open>match_weight\<close>; the key \<^verbatim>\<open>"keywords"\<close> of a category is \<open>keyword_list\<close>.
\<close>

definition analysis_step ::
  "string \<Rightarrow> criteria_match list \<times> rat \<Rightarrow> string \<times> criterion_config \<Rightarrow> criteria_match list \<times> rat" where
  "analysis_step text acc entry =
     (let matched = filter (\<lambda>keyword. py_in keyword text) (keyword_list (snd entry)) in
      if matched \<noteq> []
      then (fst acc @ [\<lparr>criterion = fst entry, matched_keywords = take 3 matched,
                        match_weight = weight (snd entry)\<rparr>],
            snd acc + weight (snd entry))
      else acc)"

definition get_detailed_analysis :: "string \<Rightarrow> string \<Rightarrow> analysis" where
  "get_detailed_analysis t c =
     (let text = normalize t c;
          acc = foldl (analysis_step text) ([], 0) CRITERIA_KEYWORDS
      in \<lparr>result = detect_from_text t c,
          geographic_match = check_geographic_requirement text,
          confirmed_outcome = check_confirmed_outcome text,
          excluded = check_exclusion_patterns text,
          criteria_matches = fst acc,
          total_score = snd acc\<rparr>)"


section \<open>Batch mode: one record of the input file\<close>

text \<open>
  \<^verbatim>\<open>process_json_file\<close> of \<^verbatim>\<open>step_neg_check/pipeline.py\<close> reads the fields of each
  record with \<^verbatim>\<open>event.get(key, '')\<close> and chains the three content fields with
  \<^verbatim>\<open>or\<close>. A record is modelled as a map from field names to string values; \<open>dict_get\<close>
  is \<^verbatim>\<open>dict.get\<close> with a default and \<open>py_or\<close> is \<^verbatim>\<open>or\<close> on two strings.
\<close>

type_synonym json_record = "string \<rightharpoonup> string"

definition dict_get :: "json_record \<Rightarrow> string \<Rightarrow> string \<Rightarrow> string" where
  "dict_get event key dflt = (case event key of None \<Rightarrow> dflt | Some v \<Rightarrow> v)"

definition py_or :: "string \<Rightarrow> string \<Rightarrow> string" where
  "py_or a b = (if a \<noteq> [] then a else b)"

definition record_title :: "json_record \<Rightarrow> string" where
  "record_title event = dict_get event ''title'' []"

definition record_content :: "json_record \<Rightarrow> string" where
  "record_content event =
     py_or (py_or (dict_get event ''content'' []) (dict_get event ''description'' []))
           (dict_get event ''summary'' [])"

definition process_event :: "string \<Rightarrow> json_record \<Rightarrow> json_record" where
  "process_event now event =
     (let result = detect_from_text (record_title event) (record_content event)
      in event(''negative_high_impact'' \<mapsto> result, ''processed_at'' \<mapsto> now))"


section \<open>Notions of the specification\<close>






text \<open>
  \<open>upper_char\<close> is \<^verbatim>\<open>str.upper\<close> on one code point: a..z and the Latin-1 small letters
  0xE0..0xFE (without the division sign 0xF7) move down by 32 and the sharp s 0xDF becomes
  the two letters SS. The micro sign 0xB5 and the y with diaeresis 0xFF have upper-case
  forms outside the range 0..255; they are left as they are.
\<close>

definition upper_char :: "char \<Rightarrow> string" where
  "upper_char c = (let n = (of_char c :: nat) in
     if (97 \<le> n \<and> n \<le> 122) \<or> (224 \<le> n \<and> n \<le> 254 \<and> n \<noteq> 247)
     then [char_of (n - 32)]
     else if n = 223 then ''SS'' else [c])"

definition upper :: "string \<Rightarrow> string" where
  "upper s = concat (map upper_char s)"

text \<open>
  \<open>case_transformed s s'\<close>: \<open>s'\<close> is \<open>s\<close> with each character replaced by itself, by
  its lower-case form or by its upper-case form. \<open>case_changed s s'\<close> is the same with
  forms of one character only, so that \<open>s'\<close> has the characters of \<open>s\<close> one for one.
\<close>

fun case_transformed :: "string \<Rightarrow> string \<Rightarrow> bool" where
  "case_transformed [] s' = (s' = [])"
| "case_transformed (c # cs) s' =
     ((starts_with [c] s' \<and> case_transformed cs (drop 1 s'))
      \<or> (starts_with [lower_char c] s' \<and> case_transformed cs (drop 1 s'))
      \<or> (starts_with (upper_char c) s' \<and> case_transformed cs (drop (length (upper_char c)) s')))"

definition case_changed :: "string \<Rightarrow> string \<Rightarrow> bool" where
  "case_changed s s' =
     list_all2 (\<lambda>c d. d = c \<or> d = lower_char c \<or> upper_char c = [d]) s s'"


section \<open>The reference input of the test corpus\<close>

definition reference_title :: string where
  "reference_title = ''Port of Jakarta confirmed closed due to strike''"

definition reference_content :: string where
  "reference_content =
     ''The Port of Jakarta has been confirmed closed after a massive workers'' @ [CHR 0x27] @
     '' strike began on Monday. All shipping operations have been halted indefinitely.''"

definition reference_text :: string where
  "reference_text =
     ''port of jakarta confirmed closed due to strike the port of jakarta has been '' @
     ''confirmed closed after a massive workers'' @ [CHR 0x27] @
     '' strike began on monday. all shipping operations have been halted indefinitely.''"

section \<open>Evaluation of the character tables\<close>

text \<open>
  The three character tables, bit by bit: these equations are what concrete inputs are
  evaluated with. Each is checked against its definition on all 256 code points.
\<close>

lemma lower_char_code [code]:
  "lower_char (Char b0 b1 b2 b3 b4 b5 b6 b7) =
     (if b6 \<and> \<not> b5 \<and> (if b7 then \<not> (b0 \<and> b1 \<and> b2 \<and> b4)
                        else (b0 \<or> b1 \<or> b2 \<or> b3 \<or> b4) \<and> \<not> (b4 \<and> b3 \<and> (b2 \<or> b1 \<and> b0)))
      then Char b0 b1 b2 b3 b4 True b6 b7 else Char b0 b1 b2 b3 b4 b5 b6 b7)"
  by (cases b0; cases b1; cases b2; cases b3; cases b4; cases b5; cases b6; cases b7;
      simp add: lower_char_def char_of_eq_iff)



lemma upper_char_code [code]:
  "upper_char (Char b0 b1 b2 b3 b4 b5 b6 b7) =
     (if b6 \<and> b5 \<and> (if b7 then \<not> (b0 \<and> b1 \<and> b2 \<and> b4)
                      else (b0 \<or> b1 \<or> b2 \<or> b3 \<or> b4) \<and> \<not> (b4 \<and> b3 \<and> (b2 \<or> b1 \<and> b0)))
      then [Char b0 b1 b2 b3 b4 False b6 b7]
      else if b0 \<and> b1 \<and> b2 \<and> b3 \<and> b4 \<and> \<not> b5 \<and> b6 \<and> b7 then ''SS''
      else [Char b0 b1 b2 b3 b4 b5 b6 b7])"
  by (cases b0; cases b1; cases b2; cases b3; cases b4; cases b5; cases b6; cases b7;
      simp add: upper_char_def char_of_eq_iff)


section \<open>Facts about the model\<close>

lemma lower_char_idem: "lower_char (lower_char c) = lower_char c"
  by (cases c) (simp add: lower_char_code)

lemma lower_idem: "lower (lower t) = lower t"
  by (simp add: lower_def lower_char_idem)

lemma normalize_lower: "lower (normalize t c) = normalize t c"
  by (simp add: normalize_def lower_idem)

lemma starts_with_prefix: "starts_with k t \<longleftrightarrow> prefix k t"
  by (induction k t rule: starts_with.induct) auto

lemma py_in_sublist: "py_in k t \<longleftrightarrow> sublist k t"
proof (induction t)
  case Nil
  show ?case by (cases k) simp_all
next
  case (Cons c cs)
  show ?case
    by (simp add: Cons starts_with_prefix sublist_Cons_right del: starts_with.simps)
qed

lemma any_keyword_in_iff: "any_keyword_in ks t \<longleftrightarrow> (\<exists>k \<in> set ks. sublist k t)"
  by (induction ks) (auto simp add: py_in_sublist)

lemma any_pattern_found_iff: "any_pattern_found ps t \<longleftrightarrow> (\<exists>p \<in> set ps. re_search p t)"
  by (induction ps) auto

lemma foldl_add_count:
  "foldl (\<lambda>n p. n + f p) (a::nat) ps = a + sum_list (map f ps)"
  by (induction ps arbitrary: a) simp_all

lemma foldl_score:
  "foldl (\<lambda>total (criterion, config). if P config then total + weight config else total) (a::rat) cs
     = a + sum_list (map (\<lambda>(criterion, config). if P config then weight config else 0) cs)"
  by (induction cs arbitrary: a) (auto simp add: case_prod_beta)

lemma exclusion_count_sum:
  "exclusion_count t = sum_list (map (\<lambda>p. length (re_findall p t)) EXCLUSION_PATTERNS)"
  by (simp add: exclusion_count_def foldl_add_count)

lemma evaluate_criteria_sum:
  "evaluate_criteria t =
     sum_list (map (\<lambda>(criterion, config).
        if (\<exists>k \<in> set (keyword_list config). sublist k (lower t)) then weight config else 0)
        CRITERIA_KEYWORDS)"
  by (simp add: evaluate_criteria_def Let_def foldl_score any_keyword_in_iff)

lemma geographic_iff:
  "check_geographic_requirement t \<longleftrightarrow> (\<exists>tok \<in> set TARGET_COUNTRIES. sublist tok (lower t))"
  by (simp add: check_geographic_requirement_def Let_def any_keyword_in_iff)

lemma filter_nonempty_iff:
  "filter (\<lambda>keyword. py_in keyword t) ks \<noteq> [] \<longleftrightarrow> any_keyword_in ks t"
  by (induction ks) auto

lemma analysis_step_snd:
  "snd (analysis_step t acc entry) =
     snd acc + (if any_keyword_in (keyword_list (snd entry)) t then weight (snd entry) else 0)"
  by (simp add: analysis_step_def Let_def filter_nonempty_iff)

lemma analysis_fold_score:
  "snd (foldl (analysis_step t) acc cs) =
     snd acc + sum_list (map (\<lambda>(criterion, config).
        if any_keyword_in (keyword_list config) t then weight config else 0) cs)"
proof (induction cs arbitrary: acc)
  case Nil
  show ?case by simp
next
  case (Cons entry cs)
  have "snd (foldl (analysis_step t) (analysis_step t acc entry) cs) =
        snd (analysis_step t acc entry) + sum_list (map (\<lambda>(criterion, config).
        if any_keyword_in (keyword_list config) t then weight config else 0) cs)"
    by (rule Cons)
  then show ?case
    by (cases entry) (simp add: analysis_step_snd)
qed

lemma analysis_total_score:
  "total_score (get_detailed_analysis t c) = evaluate_criteria (normalize t c)"
  by (simp add: get_detailed_analysis_def Let_def analysis_fold_score evaluate_criteria_def
        foldl_score normalize_lower)

lemma analysis_fold_short:
  assumes "\<forall>m \<in> set (fst acc). length (matched_keywords m) \<le> 3"
  shows "\<forall>m \<in> set (fst (foldl (analysis_step u) acc cs)). length (matched_keywords m) \<le> 3"
  using assms
proof (induction cs arbitrary: acc)
  case Nil
  then show ?case by simp
next
  case (Cons entry cs)
  have "\<forall>m \<in> set (fst (analysis_step u acc entry)). length (matched_keywords m) \<le> 3"
    using Cons.prems by (simp add: analysis_step_def Let_def)
  then show ?case
    using Cons.IH by simp
qed

lemma detect_run_cases:
  "detect_run event =
     (let t = normalize (title event) (content event) in
      if \<not> check_geographic_requirement t then ([Geographic], ''no'')
      else if \<not> check_confirmed_outcome t then ([Geographic, Confirmation], ''no'')
      else if check_exclusion_patterns t then ([Geographic, Confirmation, Exclusion], ''no'')
      else if evaluate_criteria t \<ge> 2
           then ([Geographic, Confirmation, Exclusion, Criteria], ''yes'')
           else ([Geographic, Confirmation, Exclusion, Criteria], ''no''))"
  by (simp add: detect_run_def Let_def)

lemma detect_from_text_cases:
  "detect_from_text t c =
     (if check_geographic_requirement (normalize t c) \<and> check_confirmed_outcome (normalize t c)
         \<and> \<not> check_exclusion_patterns (normalize t c) \<and> evaluate_criteria (normalize t c) \<ge> 2
      then ''yes'' else ''no'')"
  by (simp add: detect_from_text_def detect_def detect_run_cases Let_def)


section \<open>The decision of \<^verbatim>\<open>detect\<close>\<close>

text \<open>
  Claim C1. For every event, \<^verbatim>\<open>detect\<close> on the normalized text of title and content
  returns "yes" if and only if the geographic gate passes, the confirmation gate passes,
  the exclusion gate does not fire and the weighted score is at least 2.0; the only
  return values are "yes" and "no"; and a gate that fails returns "no" at once: the
  stages that were evaluated are the failing gate and the gates before it, none after it.
\<close>

theorem detect_four_gates:
  fixes event :: "'a EventContext_scheme"
  defines "t \<equiv> normalize (title event) (content event)"
  shows "(detect event = ''yes'' \<longleftrightarrow>
            check_geographic_requirement t \<and> check_confirmed_outcome t \<and>
            \<not> check_exclusion_patterns t \<and> evaluate_criteria t \<ge> 2)
       \<and> (detect event = ''yes'' \<or> detect event = ''no'')
       \<and> (\<not> check_geographic_requirement t \<longrightarrow> detect_run event = ([Geographic], ''no''))
       \<and> (check_geographic_requirement t \<and> \<not> check_confirmed_outcome t \<longrightarrow>
            detect_run event = ([Geographic, Confirmation], ''no''))
       \<and> (check_geographic_requirement t \<and> check_confirmed_outcome t \<and>
            check_exclusion_patterns t \<longrightarrow>
            detect_run event = ([Geographic, Confirmation, Exclusion], ''no''))
       \<and> (check_geographic_requirement t \<and> check_confirmed_outcome t \<and>
            \<not> check_exclusion_patterns t \<longrightarrow>
            fst (detect_run event) = [Geographic, Confirmation, Exclusion, Criteria])"
  unfolding t_def detect_def detect_run_cases Let_def by simp

theorem detect_four_gates_witness:
  "detect \<lparr>title = ''Jakarta port closed'', content = ''blackout'', country = None,
           is_confirmed = False, has_material_impact = False\<rparr> = ''yes''
   \<and> detect_run \<lparr>title = ''port closed'', content = [], country = None,
                  is_confirmed = False, has_material_impact = False\<rparr> = ([Geographic], ''no'')"
proof -
  have g: "check_geographic_requirement (normalize ''Jakarta port closed'' ''blackout'')"
    by code_simp
  have c: "check_confirmed_outcome (normalize ''Jakarta port closed'' ''blackout'')"
    by code_simp
  have x: "\<not> check_exclusion_patterns (normalize ''Jakarta port closed'' ''blackout'')"
    by code_simp
  have s: "evaluate_criteria (normalize ''Jakarta port closed'' ''blackout'') \<ge> 2"
    by code_simp
  have n: "\<not> check_geographic_requirement (normalize ''port closed'' [])"
    by code_simp
  show ?thesis
    using g c x s n
      detect_four_gates [of "\<lparr>title = ''Jakarta port closed'', content = ''blackout'',
        country = None, is_confirmed = False, has_material_impact = False\<rparr>"]
      detect_four_gates [of "\<lparr>title = ''port closed'', content = [], country = None,
        is_confirmed = False, has_material_impact = False\<rparr>"]
    by simp
qed


section \<open>The weighted score\<close>

text \<open>
  Claim C2. For every text the weighted criteria score is the sum, over the 14 categories,
  of the weight of the category when at least one of its keywords occurs as a substring
  of the lower-cased text, and of zero otherwise (on a normalized text the lower-casing
  changes nothing). A category adds its weight once, however many of its keywords occur
  and however often. The weights of the 14 categories are the listed ones.
\<close>

theorem criteria_score_is_capped_sum:
  "evaluate_criteria t =
     sum_list (map (\<lambda>(criterion, config).
        if (\<exists>k \<in> set (keyword_list config). sublist k (lower t)) then weight config else 0)
        CRITERIA_KEYWORDS)
   \<and> (lower t = t \<longrightarrow> evaluate_criteria t =
     sum_list (map (\<lambda>(criterion, config).
        if (\<exists>k \<in> set (keyword_list config). sublist k t) then weight config else 0)
        CRITERIA_KEYWORDS))
   \<and> map (\<lambda>(criterion, config). (criterion, weight config)) CRITERIA_KEYWORDS =
       [(''production_disruption'', 3), (''corporate_distress'', 3), (''sovereign_stress'', 7 / 2),
        (''trade_restrictions'', 3), (''regulatory_political_shock'', 7 / 2),
        (''capital_withdrawal'', 5 / 2), (''demand_contraction'', 5 / 2),
        (''natural_disaster'', 5 / 2), (''infrastructure_failure'', 3),
        (''corporate_outlook_cuts'', 2), (''fiscal_tightening'', 5 / 2),
        (''market_instability'', 2), (''geopolitical_escalation'', 7 / 2),
        (''structural_escalation'', 3 / 2)]"
proof (intro conjI impI)
  show "evaluate_criteria t =
     sum_list (map (\<lambda>(criterion, config).
        if (\<exists>k \<in> set (keyword_list config). sublist k (lower t)) then weight config else 0)
        CRITERIA_KEYWORDS)"
    by (rule evaluate_criteria_sum)
next
  assume "lower t = t"
  then show "evaluate_criteria t =
     sum_list (map (\<lambda>(criterion, config).
        if (\<exists>k \<in> set (keyword_list config). sublist k t) then weight config else 0)
        CRITERIA_KEYWORDS)"
    using evaluate_criteria_sum [of t] by simp
next
  show "map (\<lambda>(criterion, config). (criterion, weight config)) CRITERIA_KEYWORDS =
       [(''production_disruption'', 3), (''corporate_distress'', 3), (''sovereign_stress'', 7 / 2),
        (''trade_restrictions'', 3), (''regulatory_political_shock'', 7 / 2),
        (''capital_withdrawal'', 5 / 2), (''demand_contraction'', 5 / 2),
        (''natural_disaster'', 5 / 2), (''infrastructure_failure'', 3),
        (''corporate_outlook_cuts'', 2), (''fiscal_tightening'', 5 / 2),
        (''market_instability'', 2), (''geopolitical_escalation'', 7 / 2),
        (''structural_escalation'', 3 / 2)]"
    by (simp add: CRITERIA_KEYWORDS_def production_disruption_def corporate_distress_def
          sovereign_stress_def trade_restrictions_def regulatory_political_shock_def
          capital_withdrawal_def demand_contraction_def natural_disaster_def
          infrastructure_failure_def corporate_outlook_cuts_def fiscal_tightening_def
          market_instability_def geopolitical_escalation_def structural_escalation_def)
qed

text \<open>
  In "port closed blackout" two keywords of \<open>production_disruption\<close> and two of
  \<open>infrastructure_failure\<close> occur; the score is 3 + 3.
\<close>

theorem criteria_score_is_capped_sum_witness:
  "lower ''port closed blackout'' = ''port closed blackout''
   \<and> evaluate_criteria ''port closed blackout'' = 6"
proof -
  have l: "lower ''port closed blackout'' = ''port closed blackout''"
    by code_simp
  have s: "sum_list (map (\<lambda>(criterion, config).
        if (\<exists>k \<in> set (keyword_list config). sublist k ''port closed blackout'')
        then weight config else 0) CRITERIA_KEYWORDS) = 6"
    by code_simp
  show ?thesis
    using l s criteria_score_is_capped_sum [of "''port closed blackout''"] by simp
qed


section \<open>The exclusion gate\<close>

text \<open>
  Claim C3. The speculative-exclusion filter returns true if and only if the number of
  matches of \<^verbatim>\<open>re.findall\<close>, summed over the five exclusion patterns on the whole text,
  is at least 3; and an event that passes the geographic and the confirmation gate and
  has such a count of at least 3 gets the verdict "no", whatever its weighted score.
\<close>

theorem exclusion_threshold_three:
  fixes event :: "'a EventContext_scheme"
  shows "(check_exclusion_patterns t \<longleftrightarrow>
            sum_list (map (\<lambda>p. length (re_findall p t)) EXCLUSION_PATTERNS) \<ge> 3)
       \<and> length EXCLUSION_PATTERNS = 5
       \<and> (check_geographic_requirement (normalize (title event) (content event)) \<and>
          check_confirmed_outcome (normalize (title event) (content event)) \<and>
          sum_list (map (\<lambda>p. length (re_findall p (normalize (title event) (content event))))
                        EXCLUSION_PATTERNS) \<ge> 3
          \<longrightarrow> detect event = ''no'')"
  by (simp add: check_exclusion_patterns_def exclusion_count_sum detect_def detect_run_cases
        Let_def EXCLUSION_PATTERNS_def)

theorem exclusion_threshold_three_witness:
  "evaluate_criteria (normalize ''Jakarta port closed'' ''it may if could'') \<ge> 2
   \<and> check_exclusion_patterns (normalize ''Jakarta port closed'' ''it may if could'')
   \<and> detect \<lparr>title = ''Jakarta port closed'', content = ''it may if could'', country = None,
             is_confirmed = False, has_material_impact = False\<rparr> = ''no''"
proof -
  have g: "check_geographic_requirement (normalize ''Jakarta port closed'' ''it may if could'')"
    by code_simp
  have c: "check_confirmed_outcome (normalize ''Jakarta port closed'' ''it may if could'')"
    by code_simp
  have x: "sum_list (map (\<lambda>p. length (re_findall p
             (normalize ''Jakarta port closed'' ''it may if could''))) EXCLUSION_PATTERNS) \<ge> 3"
    by code_simp
  have s: "evaluate_criteria (normalize ''Jakarta port closed'' ''it may if could'') \<ge> 2"
    by code_simp
  show ?thesis
    using g c x s
      exclusion_threshold_three [of "normalize ''Jakarta port closed'' ''it may if could''"
        "\<lparr>title = ''Jakarta port closed'', content = ''it may if could'', country = None,
          is_confirmed = False, has_material_impact = False\<rparr>"]
    by simp
qed


section \<open>The geographic gate\<close>

text \<open>
  Claim C4. The geographic gate passes exactly when at least one token of the
  target-entity set occurs as a literal substring of the lower-cased text, with no word
  boundary required; and when no token occurs in the lower-cased "title content", the
  verdict is "no", whatever the score.
\<close>

theorem geographic_gate_is_substring_test:
  fixes event :: "'a EventContext_scheme"
  shows "(check_geographic_requirement t \<longleftrightarrow>
            (\<exists>tok \<in> set TARGET_COUNTRIES. sublist tok (lower t)))
       \<and> ((\<forall>tok \<in> set TARGET_COUNTRIES.
              \<not> sublist tok (lower (title event @ '' '' @ content event)))
            \<longrightarrow> detect event = ''no'')"
proof -
  have "detect event = ''no''"
    if "\<forall>tok \<in> set TARGET_COUNTRIES. \<not> sublist tok (lower (title event @ '' '' @ content event))"
  proof -
    from that have "\<not> check_geographic_requirement (normalize (title event) (content event))"
      by (simp add: geographic_iff normalize_lower) (simp add: normalize_def)
    then show ?thesis
      by (simp add: detect_def detect_run_cases Let_def)
  qed
  then show ?thesis
    using geographic_iff by blast
qed

text \<open>
  "Indonesia" inside a longer token passes the gate; a text with a score of 6 and no
  token gets "no".
\<close>

theorem geographic_gate_is_substring_test_witness:
  "check_geographic_requirement ''xIndonesiax''
   \<and> evaluate_criteria (normalize ''Port closed'' ''blackout confirmed'') = 6
   \<and> detect \<lparr>title = ''Port closed'', content = ''blackout confirmed'', country = None,
             is_confirmed = False, has_material_impact = False\<rparr> = ''no''"
proof -
  have a: "\<exists>tok \<in> set TARGET_COUNTRIES. sublist tok (lower ''xIndonesiax'')"
    by code_simp
  have b: "\<forall>tok \<in> set TARGET_COUNTRIES.
             \<not> sublist tok (lower (''Port closed'' @ '' '' @ ''blackout confirmed''))"
    by code_simp
  have s: "evaluate_criteria (normalize ''Port closed'' ''blackout confirmed'') = 6"
    by code_simp
  show ?thesis
    using a b s
      geographic_gate_is_substring_test [of "''xIndonesiax''"
        "\<lparr>title = ''Port closed'', content = ''blackout confirmed'', country = None,
          is_confirmed = False, has_material_impact = False\<rparr>"]
    by simp
qed


section \<open>The hint fields and the detailed analysis\<close>

text \<open>
  Claim C9. The verdict of \<^verbatim>\<open>detect\<close> depends on the title and the content of the event
  only: two events with the same title and content get the same verdict, whatever their
  \<open>country\<close>, \<open>is_confirmed\<close> and \<open>has_material_impact\<close> fields (and whatever further
  fields they carry). The detector has no attribute of its own (\<^verbatim>\<open>__init__\<close> sets none
  and no method assigns one), so \<open>detect\<close> and \<open>get_detailed_analysis\<close> are functions of
  their arguments and a repeated call returns the same value.
\<close>

theorem verdict_ignores_hints:
  fixes e1 :: "'a EventContext_scheme" and e2 :: "'b EventContext_scheme"
  assumes "title e1 = title e2" and "content e1 = content e2"
  shows "detect e1 = detect e2"
  using assms by (simp add: detect_def detect_run_def)

theorem verdict_ignores_hints_witness:
  "detect \<lparr>title = ''Jakarta port closed'', content = ''blackout'', country = Some ''Laos'',
           is_confirmed = True, has_material_impact = True\<rparr>
   = detect \<lparr>title = ''Jakarta port closed'', content = ''blackout'', country = None,
             is_confirmed = False, has_material_impact = False\<rparr>"
  using verdict_ignores_hints
    [of "\<lparr>title = ''Jakarta port closed'', content = ''blackout'', country = Some ''Laos'',
          is_confirmed = True, has_material_impact = True\<rparr>"
        "\<lparr>title = ''Jakarta port closed'', content = ''blackout'', country = None,
          is_confirmed = False, has_material_impact = False\<rparr>"]
  by simp

text \<open>
  Claim C10. For every title and content, the \<open>total_score\<close> of the detailed analysis is
  the score that \<^verbatim>\<open>detect\<close> computes with \<^verbatim>\<open>_evaluate_criteria\<close> on the same normalized
  text; so the \<open>result\<close> of the analysis is "yes" exactly when its \<open>geographic_match\<close> and
  \<open>confirmed_outcome\<close> are true, its \<open>excluded\<close> is false and its \<open>total_score\<close> is at
  least 2.0. Every listed category shows at most 3 keywords.
\<close>

theorem analysis_score_agrees_with_detect:
  "total_score (get_detailed_analysis t c) = evaluate_criteria (normalize t c)
   \<and> (result (get_detailed_analysis t c) = ''yes'' \<longleftrightarrow>
        geographic_match (get_detailed_analysis t c) \<and>
        confirmed_outcome (get_detailed_analysis t c) \<and>
        \<not> excluded (get_detailed_analysis t c) \<and>
        total_score (get_detailed_analysis t c) \<ge> 2)
   \<and> (\<forall>m \<in> set (criteria_matches (get_detailed_analysis t c)). length (matched_keywords m) \<le> 3)"
proof -
  have verdict: "result (get_detailed_analysis t c) = ''yes'' \<longleftrightarrow>
        geographic_match (get_detailed_analysis t c) \<and>
        confirmed_outcome (get_detailed_analysis t c) \<and>
        \<not> excluded (get_detailed_analysis t c) \<and>
        evaluate_criteria (normalize t c) \<ge> 2"
    by (simp add: get_detailed_analysis_def Let_def detect_from_text_cases)
  have "\<forall>m \<in> set (criteria_matches (get_detailed_analysis t c)). length (matched_keywords m) \<le> 3"
    using analysis_fold_short [of "([], 0)"] by (simp add: get_detailed_analysis_def Let_def)
  with analysis_total_score verdict show ?thesis by simp
qed

theorem analysis_score_agrees_with_detect_witness:
  "total_score (get_detailed_analysis ''Jakarta port closed'' ''blackout'') = 6
   \<and> result (get_detailed_analysis ''Jakarta port closed'' ''blackout'') = ''yes''"
proof -
  have s: "evaluate_criteria (normalize ''Jakarta port closed'' ''blackout'') = 6"
    by code_simp
  have g: "check_geographic_requirement (normalize ''Jakarta port closed'' ''blackout'')"
    by code_simp
  have c: "check_confirmed_outcome (normalize ''Jakarta port closed'' ''blackout'')"
    by code_simp
  have x: "\<not> check_exclusion_patterns (normalize ''Jakarta port closed'' ''blackout'')"
    by code_simp
  have fields: "geographic_match (get_detailed_analysis ''Jakarta port closed'' ''blackout'')
      \<and> confirmed_outcome (get_detailed_analysis ''Jakarta port closed'' ''blackout'')
      \<and> \<not> excluded (get_detailed_analysis ''Jakarta port closed'' ''blackout'')"
    using g c x by (simp add: get_detailed_analysis_def Let_def)
  show ?thesis
    using s fields
      analysis_score_agrees_with_detect [of "''Jakarta port closed''" "''blackout''"]
    by simp
qed

section \<open>Batch mode and empty text\<close>

text \<open>
  Claim C8. In batch mode a record whose \<open>title\<close>, \<open>content\<close>, \<open>description\<close> and
  \<open>summary\<close> fields are missing or empty is classified from two empty strings, and its
  verdict is "no". For every title and content the classifier returns a verdict, "yes" or
  "no" (the program has no \<^verbatim>\<open>raise\<close> and every operation it applies is defined on all
  strings, so the model has no error value); and when both are empty the geographic gate
  fails and the verdict is "no".
\<close>

theorem empty_record_is_classified_no:
  "((\<forall>key \<in> {''title'', ''content'', ''description'', ''summary''}.
        event key = None \<or> event key = Some [])
      \<longrightarrow> record_title event = [] \<and> record_content event = []
          \<and> process_event now event ''negative_high_impact'' = Some ''no'')
   \<and> (detect_from_text t c = ''yes'' \<or> detect_from_text t c = ''no'')
   \<and> \<not> check_geographic_requirement (normalize [] [])
   \<and> detect_from_text [] [] = ''no''"
proof -
  have geo: "\<not> check_geographic_requirement (normalize [] [])"
    by code_simp
  then have none: "detect_from_text [] [] = ''no''"
    by (simp add: detect_from_text_cases)
  have "record_title event = [] \<and> record_content event = []
          \<and> process_event now event ''negative_high_impact'' = Some ''no''"
    if "\<forall>key \<in> {''title'', ''content'', ''description'', ''summary''}.
          event key = None \<or> event key = Some []"
  proof -
    from that have "record_title event = []" and "record_content event = []"
      by (auto simp add: record_title_def record_content_def dict_get_def py_or_def
            split: option.splits)
    with none show ?thesis
      by (simp add: process_event_def Let_def)
  qed
  with geo none show ?thesis
    by (simp add: detect_from_text_cases)
qed

theorem empty_record_is_classified_no_witness:
  "process_event ''2024-01-01T00:00:00'' [''title'' \<mapsto> [], ''url'' \<mapsto> ''x''] ''negative_high_impact''
     = Some ''no''"
proof -
  have "\<forall>key \<in> {''title'', ''content'', ''description'', ''summary''}.
          [''title'' \<mapsto> [], ''url'' \<mapsto> ''x''] key = None
          \<or> [''title'' \<mapsto> [], ''url'' \<mapsto> ''x''] key = Some []"
    by simp
  then show ?thesis
    using empty_record_is_classified_no
      [of "[''title'' \<mapsto> [], ''url'' \<mapsto> ''x'']" "''2024-01-01T00:00:00''" "[]" "[]"]
    by blast
qed


section \<open>Case transformations\<close>

lemma upper_char_single: "upper_char c = [d] \<Longrightarrow> lower_char d = lower_char c"
proof (cases c)
  case (Char b0 b1 b2 b3 b4 b5 b6 b7)
  assume "upper_char c = [d]"
  then show ?thesis
    unfolding Char upper_char_code
    by (cases b0; cases b1; cases b2; cases b3; cases b4; cases b5; cases b6; cases b7;
        simp add: lower_char_code; auto simp add: lower_char_code)
qed

lemma case_changed_lower: "case_changed s s' \<Longrightarrow> lower s' = lower s"
  unfolding case_changed_def lower_def
  by (induction s s' rule: list_all2_induct) (auto simp add: lower_char_idem upper_char_single)

lemma same_lower_normalize:
  "lower t' = lower t \<Longrightarrow> lower c' = lower c \<Longrightarrow> normalize t' c' = normalize t c"
  by (simp add: normalize_def lower_def)

text \<open>
  Claim C6, as the code has it. For every title and content, the verdict and the total
  weighted score are unchanged by every transformation of the text that leaves its
  lower-cased form unchanged. On the code points 0..255 that is every case transformation
  that replaces each character by one character: itself, its lower-case form, or its
  upper-case form when that is a single character. What this leaves out is the
  upper-casing of the sharp s to the two letters SS.
\<close>

theorem verdict_unchanged_by_case_change:
  "(case_changed t t' \<and> case_changed c c' \<longrightarrow>
      detect_from_text t' c' = detect_from_text t c
      \<and> total_score (get_detailed_analysis t' c') = total_score (get_detailed_analysis t c)
      \<and> evaluate_criteria t' = evaluate_criteria t)
   \<and> (lower t' = lower t \<and> lower c' = lower c \<longrightarrow>
      detect_from_text t' c' = detect_from_text t c
      \<and> total_score (get_detailed_analysis t' c') = total_score (get_detailed_analysis t c)
      \<and> evaluate_criteria t' = evaluate_criteria t)"
proof -
  have same: "detect_from_text t' c' = detect_from_text t c
      \<and> total_score (get_detailed_analysis t' c') = total_score (get_detailed_analysis t c)
      \<and> evaluate_criteria t' = evaluate_criteria t"
    if "lower t' = lower t" and "lower c' = lower c"
    using same_lower_normalize [OF that] that(1)
    by (simp add: detect_from_text_cases analysis_total_score evaluate_criteria_def)
  then show ?thesis
    using case_changed_lower by blast
qed

theorem verdict_unchanged_by_case_change_witness:
  "case_changed ''Jakarta port closed'' ''JAKARTA Port CLOSED''
   \<and> detect_from_text ''JAKARTA Port CLOSED'' ''BlackOut''
       = detect_from_text ''Jakarta port closed'' ''blackout''"
proof -
  have a: "case_changed ''Jakarta port closed'' ''JAKARTA Port CLOSED''"
    by code_simp
  have b: "case_changed ''blackout'' ''BlackOut''"
    by code_simp
  show ?thesis
    using a b
      verdict_unchanged_by_case_change
        [of "''Jakarta port closed''" "''JAKARTA Port CLOSED''" "''blackout''" "''BlackOut''"]
    by simp
qed

text \<open>
  Claim C6, as stated, fails. Upper-casing the title "Laos rece\<ss>ion died" (with the
  sharp s, code point 0xDF) character by character gives "LAOS RECESSION DIED".
  \<^verbatim>\<open>str.lower\<close> keeps the sharp s, so the first text holds no keyword (score 0, verdict
  "no"), while the second holds "recession" (score 2.5, verdict "yes").
\<close>

theorem case_transformation_sharp_s_counterexample:
  "case_transformed (''Laos rece'' @ [CHR 0xDF] @ ''ion died'') ''LAOS RECESSION DIED''
   \<and> detect_from_text (''Laos rece'' @ [CHR 0xDF] @ ''ion died'') [] = ''no''
   \<and> detect_from_text ''LAOS RECESSION DIED'' [] = ''yes''
   \<and> evaluate_criteria (''Laos rece'' @ [CHR 0xDF] @ ''ion died'') = 0
   \<and> evaluate_criteria ''LAOS RECESSION DIED'' = 5 / 2"
proof (intro conjI)
  show "case_transformed (''Laos rece'' @ [CHR 0xDF] @ ''ion died'') ''LAOS RECESSION DIED''"
    by code_simp
  show "detect_from_text (''Laos rece'' @ [CHR 0xDF] @ ''ion died'') [] = ''no''"
    by code_simp
  show "detect_from_text ''LAOS RECESSION DIED'' [] = ''yes''"
    by code_simp
  show "evaluate_criteria (''Laos rece'' @ [CHR 0xDF] @ ''ion died'') = 0"
    by code_simp
  show "evaluate_criteria ''LAOS RECESSION DIED'' = 5 / 2"
    by code_simp
qed


section \<open>The reference input\<close>

text \<open>
  The normalized reference text, its three gates and, category by category, the keywords
  that occur in it.
\<close>

lemma reference_normalized: "normalize reference_title reference_content = reference_text"
  by code_simp

lemma reference_geographic: "check_geographic_requirement reference_text"
  by code_simp

lemma reference_confirmed: "check_confirmed_outcome reference_text"
  by code_simp

lemma reference_not_excluded: "\<not> check_exclusion_patterns reference_text"
  by code_simp

lemma reference_production_disruption:
  "filter (\<lambda>keyword. py_in keyword reference_text) (keyword_list production_disruption)
     = [''strike began'', ''workers'' @ [CHR 0x27] @ '' strike'']"
  by code_simp

lemma reference_corporate_distress:
  "filter (\<lambda>keyword. py_in keyword reference_text) (keyword_list corporate_distress) = []"
  by code_simp

lemma reference_sovereign_stress:
  "filter (\<lambda>keyword. py_in keyword reference_text) (keyword_list sovereign_stress) = []"
  by code_simp

lemma reference_trade_restrictions:
  "filter (\<lambda>keyword. py_in keyword reference_text) (keyword_list trade_restrictions) = []"
  by code_simp

lemma reference_regulatory_political_shock:
  "filter (\<lambda>keyword. py_in keyword reference_text) (keyword_list regulatory_political_shock) = []"
  by code_simp

lemma reference_capital_withdrawal:
  "filter (\<lambda>keyword. py_in keyword reference_text) (keyword_list capital_withdrawal) = []"
  by code_simp

lemma reference_demand_contraction:
  "filter (\<lambda>keyword. py_in keyword reference_text) (keyword_list demand_contraction) = []"
  by code_simp

lemma reference_natural_disaster:
  "filter (\<lambda>keyword. py_in keyword reference_text) (keyword_list natural_disaster) = []"
  by code_simp

lemma reference_infrastructure_failure:
  "filter (\<lambda>keyword. py_in keyword reference_text) (keyword_list infrastructure_failure) = []"
  by code_simp

lemma reference_corporate_outlook_cuts:
  "filter (\<lambda>keyword. py_in keyword reference_text) (keyword_list corporate_outlook_cuts) = []"
  by code_simp

lemma reference_fiscal_tightening:
  "filter (\<lambda>keyword. py_in keyword reference_text) (keyword_list fiscal_tightening) = []"
  by code_simp

lemma reference_market_instability:
  "filter (\<lambda>keyword. py_in keyword reference_text) (keyword_list market_instability) = []"
  by code_simp

lemma reference_geopolitical_escalation:
  "filter (\<lambda>keyword. py_in keyword reference_text) (keyword_list geopolitical_escalation) = []"
  by code_simp

lemma reference_structural_escalation:
  "filter (\<lambda>keyword. py_in keyword reference_text) (keyword_list structural_escalation) = []"
  by code_simp

lemma reference_matches:
  "foldl (analysis_step reference_text) ([], 0) CRITERIA_KEYWORDS =
     ([\<lparr>criterion = ''production_disruption'',
        matched_keywords = [''strike began'', ''workers'' @ [CHR 0x27] @ '' strike''],
        match_weight = 3\<rparr>], 3)"
proof -
  have w: "weight production_disruption = 3"
    by (simp add: production_disruption_def)
  show ?thesis
    by (simp add: CRITERIA_KEYWORDS_def analysis_step_def Let_def w
          reference_production_disruption reference_corporate_distress
          reference_sovereign_stress reference_trade_restrictions
          reference_regulatory_political_shock reference_capital_withdrawal
          reference_demand_contraction reference_natural_disaster
          reference_infrastructure_failure reference_corporate_outlook_cuts
          reference_fiscal_tightening reference_market_instability
          reference_geopolitical_escalation reference_structural_escalation)
qed

lemma reference_analysis:
  "get_detailed_analysis reference_title reference_content =
     \<lparr>result = ''yes'', geographic_match = True, confirmed_outcome = True, excluded = False,
      criteria_matches =
        [\<lparr>criterion = ''production_disruption'',
          matched_keywords = [''strike began'', ''workers'' @ [CHR 0x27] @ '' strike''],
          match_weight = 3\<rparr>],
      total_score = 3\<rparr>"
proof -
  have "evaluate_criteria reference_text = 3"
    using analysis_total_score [of reference_title reference_content]
    by (simp add: get_detailed_analysis_def Let_def reference_normalized reference_matches)
  then show ?thesis
    by (simp add: get_detailed_analysis_def Let_def reference_normalized reference_matches
          detect_from_text_cases reference_geographic reference_confirmed
          reference_not_excluded)
qed

text \<open>
  Claim C7, as stated, fails. For the reference input, \<open>infrastructure_failure\<close> is not
  among the categories of the detailed analysis: none of its keywords occurs in the text
  (the text has "confirmed closed", not "port closed").
\<close>

theorem reference_input_infrastructure_counterexample:
  "''infrastructure_failure'' \<notin>
     set (map criterion (criteria_matches (get_detailed_analysis reference_title reference_content)))
   \<and> \<not> any_keyword_in (keyword_list infrastructure_failure)
         (normalize reference_title reference_content)"
  using reference_infrastructure_failure
  by (simp add: reference_analysis reference_normalized flip: filter_nonempty_iff)

text \<open>
  Claim C7, as the code has it. For the reference input the verdict is "yes"; the detailed
  analysis passes the geographic and the confirmation gate, is not excluded, and lists
  \<open>production_disruption\<close> as its only category, with the matched keywords
  "strike began" and "workers' strike" and the weight 3.0; the total score is 3.0, above
  the threshold 2.0.
\<close>

theorem reference_input_analysis:
  "detect_from_text reference_title reference_content = ''yes''
   \<and> get_detailed_analysis reference_title reference_content =
       \<lparr>result = ''yes'', geographic_match = True, confirmed_outcome = True, excluded = False,
        criteria_matches =
          [\<lparr>criterion = ''production_disruption'',
            matched_keywords = [''strike began'', ''workers'' @ [CHR 0x27] @ '' strike''],
            match_weight = 3\<rparr>],
        total_score = 3\<rparr>
   \<and> total_score (get_detailed_analysis reference_title reference_content) \<ge> 2"
proof -
  have "detect_from_text reference_title reference_content
          = result (get_detailed_analysis reference_title reference_content)"
    by (simp add: get_detailed_analysis_def Let_def)
  then show ?thesis
    by (simp add: reference_analysis)
qed

section \<open>The warning family of the exclusion gate\<close>





























end
